theory Spec2Isabelle
  imports Complex_Main "HOL-Library.Monad_Syntax"
begin

section \<open>MRMap GPS connector: the decision pipeline of \<open>main.pyw\<close>\<close>

text \<open>
  The development follows \<open>main.pyw\<close> function by function. A Python float is a
  \<^typ>\<open>real\<close>, and its arithmetic is exact, but for the two places where a double
  makes the source raise: the rounding of the haversine term, which can leave the domain
  of the square root (the parameter \<open>err\<close> below), and a projection result that is
  infinite or not a number, on which \<open>math.floor\<close> raises (the type \<open>pyfloat\<close>). Python
  ints are \<^typ>\<open>int\<close>. A Python \<open>str\<close> is a \<^typ>\<open>string\<close> whose
  characters stand for code points below 256. Exceptions are values: a function that
  can raise returns a sum or an option, and the \<open>try\<close>/\<open>except\<close> blocks of the source
  are the case distinctions on them.
\<close>

subsection \<open>Great-circle distance (\<open>haversine_distance\<close>, \<open>has_moved\<close>)\<close>

type_synonym position = "real \<times> real"

text \<open>
  The exceptions that leave a function of the source: \<open>TypeError\<close> (unpacking \<open>None\<close>,
  comparing \<open>None\<close> with a number), \<open>OverflowError\<close> and \<open>ValueError\<close> (\<open>math.floor\<close> of
  an infinity, of a NaN), and an exception raised by \<open>requests.post\<close> that none of the
  \<open>except\<close> clauses names.
\<close>

datatype error = TypeError | OverflowError | ValueError | Uncaught

text \<open>\<open>math.radians\<close>.\<close>

definition radians :: "real \<Rightarrow> real" where
  "radians d = d * pi / 180"

text \<open>\<open>math.sqrt\<close> raises \<open>ValueError\<close> on a negative argument.\<close>

definition py_sqrt :: "real \<Rightarrow> real option" where
  "py_sqrt v = (if v < 0 then None else Some (sqrt v))"

text \<open>\<open>math.atan2 y x\<close>: the angle of the point \<open>(x, y)\<close>, in \<open>(-pi, pi]\<close>, and 0 at the origin.\<close>

definition atan2 :: "real \<Rightarrow> real \<Rightarrow> real" where
  "atan2 y x =
     (if 0 < x then arctan (y / x)
      else if x < 0 then (if 0 \<le> y then arctan (y / x) + pi else arctan (y / x) - pi)
      else if 0 < y then pi / 2
      else if y < 0 then - (pi / 2)
      else 0)"

text \<open>
  \<open>haversine_distance\<close>: the body of the \<open>try\<close> block; an exception (the only source
  of one, on finite numbers, is \<open>sqrt\<close>) makes the function return \<open>None\<close>.

  \<open>haversine_a\<close> is the term \<open>a\<close> as the source writes it, in exact arithmetic. The
  doubles of the source deliver it with a rounding error, \<open>err coord1 coord2\<close>, which is
  a parameter of the model; \<open>exact\<close> is the arithmetic without error. The sign of
  \<open>1 - a\<close> is that of the exact difference of the rounded \<open>a\<close> from 1, and the operations
  after the square roots cannot raise: they are taken exact.
\<close>

definition exact :: "position \<Rightarrow> position \<Rightarrow> real" where
  "exact coord1 coord2 = 0"

definition haversine_a :: "position \<Rightarrow> position \<Rightarrow> real" where
  "haversine_a coord1 coord2 =
     (let lat1 = radians (fst coord1); lon1 = radians (snd coord1);
          lat2 = radians (fst coord2); lon2 = radians (snd coord2);
          dlat = lat2 - lat1;
          dlon = lon2 - lon1
      in (sin (dlat / 2))\<^sup>2 + cos lat1 * cos lat2 * (sin (dlon / 2))\<^sup>2)"

definition haversine_distance ::
  "(position \<Rightarrow> position \<Rightarrow> real) \<Rightarrow> position \<Rightarrow> position \<Rightarrow> real option" where
  "haversine_distance err coord1 coord2 =
     (let a = haversine_a coord1 coord2 + err coord1 coord2 in
      case py_sqrt a of
        None \<Rightarrow> None
      | Some sa \<Rightarrow>
          (case py_sqrt (1 - a) of
             None \<Rightarrow> None
           | Some sb \<Rightarrow>
               (let c = 2 * atan2 sa sb;
                    earth_radius_meters = 6371000;
                    distance = earth_radius_meters * c
                in Some distance)))"

text \<open>
  \<open>has_moved\<close>: \<open>distance > threshold_distance\<close>; comparing \<open>None\<close> with a number
  raises \<open>TypeError\<close>.
\<close>

definition has_moved ::
  "(position \<Rightarrow> position \<Rightarrow> real) \<Rightarrow> position \<Rightarrow> position \<Rightarrow> int \<Rightarrow> error + bool" where
  "has_moved err previous_position current_position threshold_distance =
     (case haversine_distance err previous_position current_position of
        None \<Rightarrow> Inl TypeError
      | Some distance \<Rightarrow> Inr (distance > real_of_int threshold_distance))"

subsection \<open>Strings (\<open>str.strip\<close>, \<open>str.split\<close>, \<open>str.startswith\<close>, indexing)\<close>

text \<open>The characters \<open>str.strip()\<close> removes, among the code points below 256.\<close>

definition is_space :: "char \<Rightarrow> bool" where
  "is_space ch =
     (let n = (of_char ch :: nat)
      in (9 \<le> n \<and> n \<le> 13) \<or> (28 \<le> n \<and> n \<le> 32) \<or> n = 133 \<or> n = 160)"

definition strip :: "string \<Rightarrow> string" where
  "strip s = rev (dropWhile is_space (rev (dropWhile is_space s)))"

text \<open>
  \<open>s.split(sep)\<close> for a one-character separator. The result is never an empty list
  (lemma \<open>split_on_not_Nil\<close>), so the last case below is never taken.
\<close>

fun split_on :: "char \<Rightarrow> string \<Rightarrow> string list" where
  "split_on sep [] = [[]]"
| "split_on sep (ch # rest) =
     (if ch = sep then [] # split_on sep rest
      else (case split_on sep rest of
              part # parts \<Rightarrow> (ch # part) # parts
            | [] \<Rightarrow> [[ch]]))"

definition startswith :: "string \<Rightarrow> string \<Rightarrow> bool" where
  "startswith s prefix = (take (length prefix) s = prefix)"

text \<open>\<open>xs[i]\<close> for a non-negative constant \<open>i\<close>: \<open>None\<close> stands for \<open>IndexError\<close>.\<close>

definition index :: "'a list \<Rightarrow> nat \<Rightarrow> 'a option" where
  "index xs i = (if i < length xs then Some (xs ! i) else None)"

subsection \<open>Sentence selection and parsing (\<open>filter_nmea_sentence\<close>, \<open>parse_nmea_sentence\<close>)\<close>

definition filter_nmea_sentence :: "string \<Rightarrow> string" where
  "filter_nmea_sentence sentence =
     (let nmea_lines = split_on (CHR 0x0A) (strip sentence)
      in case find (\<lambda>line. startswith line ''$GPGGA'') nmea_lines of
           Some line \<Rightarrow> line
         | None \<Rightarrow> [])"

text \<open>
  \<open>parse_nmea_sentence\<close> returns \<open>None\<close> on three paths, told apart by what they
  print: nothing (empty sentence), \<open>Unsupported NMEA sentence\<close>, and
  \<open>Error parsing GPGGA sentence\<close> (an \<open>IndexError\<close> or \<open>ValueError\<close> caught). The
  model names the path; the caller only tests for \<open>None\<close>, that is for \<open>Inl\<close>.

  The builtin \<open>float\<close> is the parameter \<open>flt\<close>: \<open>None\<close> stands for \<open>ValueError\<close>.
\<close>

datatype parse_failure = EmptyInput | UnsupportedSentence | MalformedField

type_synonym gps_fix = "real \<times> real \<times> real"

definition parse_nmea_sentence :: "(string \<Rightarrow> real option) \<Rightarrow> string \<Rightarrow> parse_failure + gps_fix" where
  "parse_nmea_sentence flt sentence =
     (if sentence = [] then Inl EmptyInput
      else if startswith sentence ''$GPGGA'' then
        (let data = split_on (CHR '','') sentence;
             tried = do {
               lat_field \<leftarrow> index data 2;
               lat_deg \<leftarrow> flt (take 2 lat_field);
               lat_field' \<leftarrow> index data 2;
               lat_min \<leftarrow> flt (drop 2 lat_field');
               let latitude = lat_deg + lat_min / 60;
               lat_hemi \<leftarrow> index data 3;
               let latitude = (if lat_hemi = ''S'' then - latitude else latitude);
               lon_field \<leftarrow> index data 4;
               lon_deg \<leftarrow> flt (take 3 lon_field);
               lon_field' \<leftarrow> index data 4;
               lon_min \<leftarrow> flt (drop 3 lon_field');
               let longitude = lon_deg + lon_min / 60;
               lon_hemi \<leftarrow> index data 5;
               let longitude = (if lon_hemi = ''W'' then - longitude else longitude);
               acc_field \<leftarrow> index data 8;
               accuracy \<leftarrow> flt acc_field;
               Some (latitude, longitude, accuracy)
             }
         in case tried of
              Some parsed \<Rightarrow> Inr parsed
            | None \<Rightarrow> Inl MalformedField)
      else Inl UnsupportedSentence)"

subsection \<open>Decimal literals: an instance of \<open>float\<close> for concrete runs\<close>

text \<open>
  What \<open>float\<close> returns on the decimal literals \<open>[sign] digits [. digits]\<close>, as an
  exact real. \<open>float\<close> strips fewer characters than \<open>str.strip\<close>: not the separators
  U+001C to U+001F, on which it raises. Exponents, \<open>inf\<close>, \<open>nan\<close> and underscores are not
  read by this instance, and the value is not rounded to a double.
\<close>

definition is_float_space :: "char \<Rightarrow> bool" where
  "is_float_space ch =
     (let n = (of_char ch :: nat)
      in (9 \<le> n \<and> n \<le> 13) \<or> n = 32 \<or> n = 133 \<or> n = 160)"

definition is_digit :: "char \<Rightarrow> bool" where
  "is_digit ch = (let n = (of_char ch :: nat) in 48 \<le> n \<and> n \<le> 57)"

definition digits_value :: "string \<Rightarrow> real" where
  "digits_value s = foldl (\<lambda>acc ch. 10 * acc + real (of_char ch - 48)) 0 s"

definition unsigned_decimal :: "string \<Rightarrow> real option" where
  "unsigned_decimal s =
     (let ip = takeWhile is_digit s; rest = dropWhile is_digit s
      in case rest of
           [] \<Rightarrow> (if ip = [] then None else Some (digits_value ip))
         | ch # fp \<Rightarrow>
             (if ch = CHR ''.'' \<and> list_all is_digit fp \<and> (ip \<noteq> [] \<or> fp \<noteq> [])
              then Some (digits_value ip + digits_value fp / 10 ^ length fp)
              else None))"

definition decimal_float :: "string \<Rightarrow> real option" where
  "decimal_float s =
     (case rev (dropWhile is_float_space (rev (dropWhile is_float_space s))) of
        [] \<Rightarrow> None
      | ch # rest \<Rightarrow>
          (if ch = CHR ''-'' then map_option uminus (unsigned_decimal rest)
           else if ch = CHR ''+'' then unsigned_decimal rest
           else unsigned_decimal (ch # rest)))"

subsection \<open>The outside world: clock, projection library, HTTP endpoint\<close>

record payload =
  p_x :: int
  p_y :: int
  p_radioId :: string
  p_validFor :: string
  p_token :: string

text \<open>
  The effects a cycle has on the outside, in order: the call of the projection library
  (arguments as passed: longitude, latitude), the two \<open>logging.info\<close> lines of the
  decision, the \<open>logging.info\<close> line before a dispatch (\<open>True\<close> for the stationary one),
  a \<open>requests.post\<close> (url, payload, timeout) and a \<open>time.sleep\<close>. The \<open>print\<close> calls
  are left out.
\<close>

datatype event =
    Transform real real
  | Info_time_since int
  | Info_has_moved bool
  | Info_request bool payload
  | Post string payload real
  | Sleep real

record world =
  clock :: real
  trace :: "event list"

definition emit :: "event \<Rightarrow> world \<Rightarrow> world" where
  "emit e w = w\<lparr>trace := trace w @ [e]\<rparr>"

definition elapse :: "real \<Rightarrow> world \<Rightarrow> world" where
  "elapse d w = w\<lparr>clock := clock w + d\<rparr>"

text \<open>
  What one \<open>requests.post\<close> followed by \<open>raise_for_status\<close> does: a response with a
  non-error status; \<open>HTTPError\<close> (a 4xx/5xx response); \<open>ConnectionError\<close>; \<open>Timeout\<close>;
  another \<open>RequestException\<close>; or an exception that no \<open>except\<close> clause catches.
\<close>

datatype post_result =
    Response_ok
  | Raise_HTTPError
  | Raise_ConnectionError
  | Raise_Timeout
  | Raise_RequestException
  | Raise_other

subsection \<open>Dispatch with retry (\<open>make_api_request_with_retry\<close>)\<close>

text \<open>
  The \<open>for attempt in range(1, max_retries + 1)\<close> loop, over the attempts left. \<open>post\<close>
  gives the result of each attempt and \<open>secs\<close> the time it takes.
\<close>

definition backoff :: "int \<Rightarrow> int \<Rightarrow> world \<Rightarrow> world" where
  "backoff attempt max_retries w =
     (if attempt < max_retries then elapse 2 (emit (Sleep 2) w) else w)"

fun attempts ::
  "(int \<Rightarrow> post_result) \<Rightarrow> (int \<Rightarrow> real) \<Rightarrow> string \<Rightarrow> payload \<Rightarrow> int \<Rightarrow> real \<Rightarrow>
   int list \<Rightarrow> world \<Rightarrow> (error + bool) \<times> world" where
  "attempts post secs api_url pl max_retries timeout_seconds [] w = (Inr False, w)"
| "attempts post secs api_url pl max_retries timeout_seconds (attempt # rest) w =
     (let w1 = elapse (secs attempt) (emit (Post api_url pl timeout_seconds) w)
      in case post attempt of
           Response_ok \<Rightarrow> (Inr True, w1)
         | Raise_HTTPError \<Rightarrow> (Inr True, w1)
         | Raise_ConnectionError \<Rightarrow>
             attempts post secs api_url pl max_retries timeout_seconds rest
               (backoff attempt max_retries w1)
         | Raise_Timeout \<Rightarrow>
             attempts post secs api_url pl max_retries timeout_seconds rest
               (backoff attempt max_retries w1)
         | Raise_RequestException \<Rightarrow> (Inr True, w1)
         | Raise_other \<Rightarrow> (Inl Uncaught, w1))"

definition make_api_request_with_retry ::
  "(int \<Rightarrow> post_result) \<Rightarrow> (int \<Rightarrow> real) \<Rightarrow> string \<Rightarrow> payload \<Rightarrow> int \<Rightarrow> real \<Rightarrow>
   world \<Rightarrow> (error + bool) \<times> world" where
  "make_api_request_with_retry post secs api_url pl max_retries timeout_seconds w =
     attempts post secs api_url pl max_retries timeout_seconds [1..max_retries] w"

subsection \<open>Projection (\<open>convert_to_osgb36\<close>)\<close>

text \<open>
  The \<open>pyproj\<close> calls of the \<open>try\<close> block are the parameter \<open>tr\<close>, called with
  (longitude, latitude); \<open>None\<close> stands for any exception they raise, which the function
  catches and turns into the return value \<open>None\<close>. The library returns doubles, which
  can be infinite or not a number; \<open>math.floor\<close> raises \<open>OverflowError\<close> on the first and
  \<open>ValueError\<close> on the second.
\<close>

datatype pyfloat = Finite real | Infinite | NaN

definition math_floor :: "pyfloat \<Rightarrow> error + int" where
  "math_floor v =
     (case v of
        Finite r \<Rightarrow> Inr \<lfloor>r\<rfloor>
      | Infinite \<Rightarrow> Inl OverflowError
      | NaN \<Rightarrow> Inl ValueError)"

definition convert_to_osgb36 ::
  "(real \<Rightarrow> real \<Rightarrow> (pyfloat \<times> pyfloat) option) \<Rightarrow> real \<Rightarrow> real \<Rightarrow>
   (pyfloat \<times> pyfloat) option" where
  "convert_to_osgb36 tr latitude longitude =
     (case tr longitude latitude of
        Some (easting, northing) \<Rightarrow> Some (easting, northing)
      | None \<Rightarrow> None)"

subsection \<open>The listening loop (\<open>main\<close>)\<close>

record config =
  radio_id :: string
  token :: string
  api_url :: string
  moving_time_limit :: int
  stationary_time_limit :: int
  distance_limit :: int

record motion_state =
  previous_position :: position
  last_request_time :: real

text \<open>
  What one cycle receives from outside: the decoded datagram, how long \<open>recv\<close> blocked,
  the behaviour of the projection library, and the result and duration of each POST.
\<close>

record cycle_input =
  datagram :: string
  waited :: real
  transform :: "real \<Rightarrow> real \<Rightarrow> (pyfloat \<times> pyfloat) option"
  post_result_of :: "int \<Rightarrow> post_result"
  post_seconds :: "int \<Rightarrow> real"

definition VALID_FOR_DURATION :: string where
  "VALID_FOR_DURATION = ''360''"

text \<open>
  How a cycle ends: the loop is left (\<open>break\<close>), the next cycle starts with a state, or
  an exception leaves \<open>main\<close>. \<open>Dispatched result\<close> marks a cycle that called
  \<open>make_api_request_with_retry\<close> and got \<open>result\<close> back; every other completed cycle is
  \<open>Skipped\<close>.
\<close>

datatype action = Skipped | Dispatched bool

datatype cycle_result = Break | Continue motion_state action | Raised error

text \<open>
  The dispatch block, which the source has twice with the same text (but for the log
  line): build the payload, send it with the default \<open>max_retries = 1\<close> and
  \<open>timeout_seconds = 10\<close>, and on a true result update both variables.
\<close>

definition dispatch ::
  "config \<Rightarrow> cycle_input \<Rightarrow> motion_state \<Rightarrow> bool \<Rightarrow> int \<Rightarrow> int \<Rightarrow> real \<Rightarrow> real \<Rightarrow> real \<Rightarrow>
   world \<Rightarrow> cycle_result \<times> world" where
  "dispatch cfg inp st stationary easting northing latitude longitude current_time w =
     (let pl = \<lparr>p_x = easting, p_y = northing, p_radioId = radio_id cfg,
                 p_validFor = VALID_FOR_DURATION, p_token = token cfg\<rparr>;
          w1 = emit (Info_request stationary pl) w
      in case make_api_request_with_retry (post_result_of inp) (post_seconds inp)
                (api_url cfg) pl 1 10 w1 of
           (Inl err, w2) \<Rightarrow> (Raised err, w2)
         | (Inr result, w2) \<Rightarrow>
             (if result
              then (Continue (st\<lparr>last_request_time := current_time,
                                  previous_position := (latitude, longitude)\<rparr>)
                      (Dispatched result), w2)
              else (Continue st (Dispatched result), w2)))"

text \<open>One pass through the body of \<open>while True\<close>, after \<open>recv\<close> has returned.\<close>

definition main_iteration ::
  "(string \<Rightarrow> real option) \<Rightarrow> (position \<Rightarrow> position \<Rightarrow> real) \<Rightarrow> config \<Rightarrow> cycle_input \<Rightarrow>
   motion_state \<Rightarrow> world \<Rightarrow> cycle_result \<times> world" where
  "main_iteration flt err cfg inp st w =
     (if datagram inp = [] then (Break, w)
      else
        case parse_nmea_sentence flt (filter_nmea_sentence (datagram inp)) of
          Inl failure \<Rightarrow> (Continue st Skipped, w)
        | Inr (latitude, longitude, accuracy) \<Rightarrow>
            if accuracy \<le> 100 then
              (let w1 = emit (Transform longitude latitude) w
               in case convert_to_osgb36 (transform inp) latitude longitude of
                    None \<Rightarrow> (Raised TypeError, w1)
                  | Some (easting, northing) \<Rightarrow>
                      (case math_floor easting of
                         Inl exn \<Rightarrow> (Raised exn, w1)
                       | Inr easting \<Rightarrow>
                      (case math_floor northing of
                         Inl exn \<Rightarrow> (Raised exn, w1)
                       | Inr northing \<Rightarrow>
                      (case has_moved err (previous_position st) (latitude, longitude)
                              (distance_limit cfg) of
                         Inl exn \<Rightarrow> (Raised exn, w1)
                       | Inr has_moved_flag \<Rightarrow>
                           (let current_time = clock w1;
                                time_since_last_request = current_time - last_request_time st;
                                w2 = emit (Info_has_moved has_moved_flag)
                                       (emit (Info_time_since \<lfloor>time_since_last_request\<rfloor>) w1)
                            in if has_moved_flag then
                                 (if time_since_last_request \<ge> real_of_int (moving_time_limit cfg)
                                  then dispatch cfg inp st False easting northing
                                         latitude longitude current_time w2
                                  else (Continue st Skipped, w2))
                               else if time_since_last_request
                                         \<ge> real_of_int (stationary_time_limit cfg)
                               then dispatch cfg inp st True easting northing
                                      latitude longitude current_time w2
                               else (Continue st Skipped, w2))))))
            else (Continue st Skipped, w))"

text \<open>
  The loop over the datagrams received so far. \<open>previous_position\<close> starts at \<open>(0, 0)\<close>
  and \<open>last_request_time\<close> at the time of the start. With no datagram left the process
  is blocked in \<open>recv\<close>.
\<close>

datatype loop_result = Listening motion_state | Ended | Crashed error

definition initial_state :: "world \<Rightarrow> motion_state" where
  "initial_state w = \<lparr>previous_position = (0, 0), last_request_time = clock w\<rparr>"

fun main_loop ::
  "(string \<Rightarrow> real option) \<Rightarrow> (position \<Rightarrow> position \<Rightarrow> real) \<Rightarrow> config \<Rightarrow> cycle_input list \<Rightarrow>
   motion_state \<Rightarrow> world \<Rightarrow> loop_result \<times> world" where
  "main_loop flt err cfg [] st w = (Listening st, w)"
| "main_loop flt err cfg (inp # inps) st w =
     (case main_iteration flt err cfg inp st (elapse (waited inp) w) of
        (Break, w') \<Rightarrow> (Ended, w')
      | (Continue st' act, w') \<Rightarrow> main_loop flt err cfg inps st' w'
      | (Raised err, w') \<Rightarrow> (Crashed err, w'))"

subsection \<open>Observations on a trace, kinds of POST results, shape of a sentence\<close>

text \<open>
  The POSTs and the sleeps of a trace, in order. A POST result is transient when the loop
  goes on to the next attempt (\<open>ConnectionError\<close>, \<open>Timeout\<close>), and terminal when it is an
  error after which the function returns \<open>True\<close> at once.
\<close>

definition posts :: "event list \<Rightarrow> event list" where
  "posts evs = filter (\<lambda>e. case e of Post u p t \<Rightarrow> True | _ \<Rightarrow> False) evs"

definition sleeps :: "event list \<Rightarrow> event list" where
  "sleeps evs = filter (\<lambda>e. case e of Sleep d \<Rightarrow> True | _ \<Rightarrow> False) evs"

definition transient :: "post_result \<Rightarrow> bool" where
  "transient r = (r = Raise_ConnectionError \<or> r = Raise_Timeout)"

definition terminal :: "post_result \<Rightarrow> bool" where
  "terminal r = (r = Raise_HTTPError \<or> r = Raise_RequestException)"

text \<open>The payload the dispatch block builds, as a function of what it is built from.\<close>

definition report_payload :: "config \<Rightarrow> int \<Rightarrow> int \<Rightarrow> payload" where
  "report_payload cfg easting northing =
     \<lparr>p_x = easting, p_y = northing, p_radioId = radio_id cfg,
      p_validFor = VALID_FOR_DURATION, p_token = token cfg\<rparr>"



subsection \<open>Concrete inputs\<close>

text \<open>
  A receiver at 48.1173 N, 11.5167 E that has not moved since its last report 300 seconds
  ago, an endpoint that answers in 3 seconds, and variations: a datagram with no GPGGA
  line, a projection library that raises, sentences south and west of the origin and on
  it, and a line whose sentence type is longer than \<open>$GPGGA\<close>.

  Last, a fix at 0.00714 S, 180 E received after a report at 0.00714 N, 0 E: the two
  positions are antipodal, the exact term \<open>a\<close> is 1, and IEEE doubles give
  \<open>1.0000000000000002\<close>, one unit in the last place above it (\<open>ulp_error\<close>).
\<close>

definition example_sentence :: string where
  "example_sentence = ''$GPGGA,123519,4807.038,N,01131.000,E,1,08,0.9,545.4,M,46.9,M,,*47''"

definition example_config :: config where
  "example_config = \<lparr>radio_id = ''R1'', token = ''secret'', api_url = ''http://h/api'',
       moving_time_limit = 30, stationary_time_limit = 300, distance_limit = 50\<rparr>"

definition example_payload :: payload where
  "example_payload = \<lparr>p_x = 530000, p_y = 180000, p_radioId = ''R1'',
       p_validFor = VALID_FOR_DURATION, p_token = ''secret''\<rparr>"

definition example_input :: cycle_input where
  "example_input = \<lparr>datagram = example_sentence @ [CHR 0x0A], waited = 1,
       transform = (\<lambda>lon lat. Some (Finite (8934123 / 2), Finite (- (666265 / 4)))),
       post_result_of = (\<lambda>a. Response_ok), post_seconds = (\<lambda>a. 3)\<rparr>"

definition parked_state :: motion_state where
  "parked_state = \<lparr>previous_position = (481173 / 10000, 691 / 60), last_request_time = 100\<rparr>"

definition example_world :: world where
  "example_world = \<lparr>clock = 400, trace = []\<rparr>"

definition gpgll_input :: cycle_input where
  "gpgll_input = example_input\<lparr>datagram := ''$GPGLL,4916.45,N,12311.12,W,225444,A'' @ [CHR 0x0A]\<rparr>"

definition failing_projection_input :: cycle_input where
  "failing_projection_input = example_input\<lparr>transform := (\<lambda>lon lat. None)\<rparr>"

definition antipodal_input :: cycle_input where
  "antipodal_input = example_input\<lparr>datagram :=
       ''$GPGGA,123519,0000.4284,S,18000.000,E,1,08,0.9,545.4,M,46.9,M,,*47'' @ [CHR 0x0A]\<rparr>"

definition equator_state :: motion_state where
  "equator_state = \<lparr>previous_position = (357 / 50000, 0), last_request_time = 100\<rparr>"

definition ulp_error :: "position \<Rightarrow> position \<Rightarrow> real" where
  "ulp_error coord1 coord2 =
     (if coord1 = (357 / 50000, 0) \<and> coord2 = (- (357 / 50000), 180) then 1 / 2 ^ 52 else 0)"



definition gpggax_line :: string where
  "gpggax_line = ''$GPGGAX,123519,4807.038,N,01131.000,E,1,08,0.9,545.4,M,46.9,M,,*47''"

definition gpggax_block :: string where
  "gpggax_block = ''$GPGLL,4916.45,N,12311.12,W,225444,A'' @ [CHR 0x0A] @ gpggax_line @ [CHR 0x0D, CHR 0x0A]"

section \<open>Properties\<close>

subsection \<open>Distance\<close>

text \<open>
  The haversine term is the squared half chord between two points of the unit sphere, so
  in exact arithmetic it lies in \<open>[0, 1]\<close> for all angles: neither square root can fail,
  the distance is always a number, and \<open>has_moved\<close> never compares \<open>None\<close>. With a
  rounding error the term can leave the interval, and does at antipodal positions, where
  its exact value is 1.
\<close>

lemma haversine_a_bounds: "0 \<le> haversine_a p q \<and> haversine_a p q \<le> 1"
proof -
  define u where "u = radians (fst p)"
  define v where "v = radians (fst q)"
  define s where "s = (sin ((radians (snd q) - radians (snd p)) / 2))\<^sup>2"
  define t where "t = (sin ((v - u) / 2))\<^sup>2"
  have a: "haversine_a p q = t + cos u * cos v * s"
    by (simp add: haversine_a_def Let_def u_def v_def s_def t_def)
  have s01: "0 \<le> s" "s \<le> 1"
    by (simp_all add: s_def abs_square_le_1)
  have t01: "0 \<le> t" "t \<le> 1"
    by (simp_all add: t_def abs_square_le_1)
  have "2 * ((v - u) / 2) = v - u" by simp
  then have cd: "cos (v - u) = 1 - 2 * t"
    using cos_double_sin [of "(v - u) / 2"] by (simp only: t_def)
  define c where "c = cos (u + v)"
  have c11: "- 1 \<le> c" "c \<le> 1"
    by (simp_all add: c_def)
  have prod: "cos u * cos v = (1 - 2 * t + c) / 2"
    unfolding c_def cd [symmetric] by (simp add: cos_add cos_diff)
  have lo: "- t \<le> cos u * cos v"
    unfolding prod using c11(1) by (simp add: field_simps)
  have hi: "cos u * cos v \<le> 1 - t"
    unfolding prod using c11(2) by (simp add: field_simps)
  have "(- t) * s \<le> (cos u * cos v) * s"
    using lo s01(1) by (rule mult_right_mono)
  moreover have "0 \<le> t * (1 - s)"
    using t01 s01 by simp
  ultimately have ge: "0 \<le> t + cos u * cos v * s"
    by (simp add: algebra_simps)
  have "(cos u * cos v) * s \<le> (1 - t) * s"
    using hi s01(1) by (rule mult_right_mono)
  moreover have "0 \<le> (1 - t) * (1 - s)"
    using t01 s01 by simp
  ultimately have le: "t + cos u * cos v * s \<le> 1"
    by (simp add: algebra_simps)
  show ?thesis using a ge le by simp
qed

lemma haversine_distance_exact:
  "haversine_distance exact p q =
     Some (6371000 * (2 * atan2 (sqrt (haversine_a p q)) (sqrt (1 - haversine_a p q))))"
  using haversine_a_bounds [of p q]
  by (simp add: haversine_distance_def exact_def py_sqrt_def Let_def)

lemma atan2_nonneg: "0 \<le> y \<Longrightarrow> 0 \<le> x \<Longrightarrow> 0 \<le> atan2 y x"
  by (auto simp: atan2_def)

lemma haversine_distance_nonneg: "haversine_distance err p q = Some d \<Longrightarrow> 0 \<le> d"
  by (auto simp: haversine_distance_def py_sqrt_def Let_def split: if_splits intro!: atan2_nonneg)

lemma has_moved_exact:
  "\<exists>d. haversine_distance exact p q = Some d \<and> has_moved exact p q thr = Inr (d > real_of_int thr)"
  by (simp add: has_moved_def haversine_distance_exact)

lemma has_moved_computed:
  "haversine_distance err p q = Some d \<Longrightarrow> has_moved err p q thr = Inr (d > real_of_int thr)"
  by (simp add: has_moved_def)

lemma has_moved_not_computed:
  "haversine_distance err p q = None \<Longrightarrow> has_moved err p q thr = Inl TypeError"
  by (simp add: has_moved_def)

lemma haversine_distance_refl: "err p p = 0 \<Longrightarrow> haversine_distance err p p = Some 0"
  by (simp add: haversine_distance_def haversine_a_def py_sqrt_def atan2_def Let_def)

lemma haversine_a_antipodal: "haversine_a (lat, 0) (- lat, 180) = 1"
proof -
  define x where "x = radians lat"
  have r: "radians (- lat) = - x" "radians 0 = 0" "radians 180 = pi"
    by (simp_all add: radians_def x_def)
  have h: "(- x - x) / 2 = - x" by simp
  have "haversine_a (lat, 0) (- lat, 180) = (sin x)\<^sup>2 + (cos x)\<^sup>2"
    unfolding haversine_a_def Let_def fst_conv snd_conv r x_def [symmetric] h
    by (simp add: power2_eq_square)
  then show ?thesis by simp
qed

lemma haversine_distance_None_iff:
  "haversine_distance err p q = None
     \<longleftrightarrow> haversine_a p q + err p q < 0 \<or> 1 < haversine_a p q + err p q"
  by (auto simp: haversine_distance_def py_sqrt_def Let_def)

lemma antipodal_distance_fails:
  "haversine_distance ulp_error (357 / 50000, 0) (- (357 / 50000), 180) = None"
  by (simp add: haversine_distance_def haversine_a_antipodal ulp_error_def py_sqrt_def Let_def)

text \<open>
  C8. The distance from a position to itself is 0: \<open>haversine_distance p p\<close> returns
  the number 0 (and not \<open>None\<close>) for every position \<open>p\<close>. (At equal positions the
  doubles compute the term \<open>a\<close> without error: it is exactly 0.)
\<close>

theorem haversine_distance_self: "haversine_distance exact p p = Some 0"
  by (simp add: haversine_distance_def haversine_a_def exact_def py_sqrt_def atan2_def Let_def)

subsection \<open>Selecting and parsing a sentence\<close>

lemma split_on_not_Nil: "split_on sep s \<noteq> []"
  by (induction s) (auto split: list.splits)










lemma find_first:
  "P x \<Longrightarrow> \<forall>y\<in>set before. \<not> P y \<Longrightarrow> find P (before @ x # after) = Some x"
  by (induction before) simp_all

text \<open>
  C9. A line is accepted by its first six characters. If a line starts with \<open>$GPGGA\<close>
  and no earlier line of the stripped datagram does, \<open>filter_nmea_sentence\<close> returns that
  line; and \<open>parse_nmea_sentence\<close> takes any such line as a supported sentence, whatever
  follows the six characters: it returns a fix or fails on a field, and never takes the
  empty or the unsupported path.
\<close>

theorem prefix_acceptance:
  assumes "startswith line ''$GPGGA''"
    and "split_on (CHR 0x0A) (strip block) = before @ line # after"
    and "\<forall>l\<in>set before. \<not> startswith l ''$GPGGA''"
  shows "filter_nmea_sentence block = line
       \<and> parse_nmea_sentence flt line \<noteq> Inl UnsupportedSentence
       \<and> parse_nmea_sentence flt line \<noteq> Inl EmptyInput
       \<and> ((\<exists>parsed. parse_nmea_sentence flt line = Inr parsed)
            \<or> parse_nmea_sentence flt line = Inl MalformedField)"
proof -
  have f: "filter_nmea_sentence block = line"
    unfolding filter_nmea_sentence_def Let_def assms(2)
    using find_first [of "\<lambda>l. startswith l ''$GPGGA''" line before after] assms(1,3) by simp
  from assms(1) have ne: "line \<noteq> []" by (auto simp: startswith_def)
  have p: "(\<exists>parsed. parse_nmea_sentence flt line = Inr parsed)
            \<or> parse_nmea_sentence flt line = Inl MalformedField"
    using ne assms(1) by (simp add: parse_nmea_sentence_def Let_def split: option.split)
  from f p show ?thesis by auto
qed

lemma gpggax_lines:
  "split_on (CHR 0x0A) (strip gpggax_block) = [''$GPGLL,4916.45,N,12311.12,W,225444,A''] @ gpggax_line # []"
  by code_simp

lemma gpggax_prefix: "startswith gpggax_line ''$GPGGA''"
  by code_simp

lemma gpggax_parse:
  "parse_nmea_sentence decimal_float gpggax_line = Inr (481173 / 10000, 691 / 60, 9 / 10)"
  by code_simp

theorem prefix_acceptance_witness:
  "filter_nmea_sentence gpggax_block = gpggax_line
   \<and> parse_nmea_sentence decimal_float gpggax_line = Inr (481173 / 10000, 691 / 60, 9 / 10)"
proof -
  have b: "\<forall>l\<in>set [''$GPGLL,4916.45,N,12311.12,W,225444,A'']. \<not> startswith l ''$GPGGA''"
    by (simp add: startswith_def)
  from prefix_acceptance [OF gpggax_prefix gpggax_lines b, of decimal_float]
  have "filter_nmea_sentence gpggax_block = gpggax_line" by simp
  then show ?thesis using gpggax_parse by simp
qed

subsection \<open>The retry loop\<close>

lemma attempts_transient_step:
  "transient (post a) \<Longrightarrow>
   attempts post secs url pl n t (a # rest) w =
     attempts post secs url pl n t rest
       (backoff a n (elapse (secs a) (emit (Post url pl t) w)))"
  by (auto simp: transient_def Let_def)

lemma attempts_all_transient:
  "k \<le> n \<Longrightarrow> (\<And>a. k \<le> a \<Longrightarrow> a \<le> n \<Longrightarrow> transient (post a)) \<Longrightarrow>
   attempts post secs url pl n t [k..n] w =
     (Inr False,
      w\<lparr>clock := clock w + sum_list (map secs [k..n]) + 2 * real_of_int (n - k),
        trace := trace w @ Post url pl t # concat (replicate (nat (n - k)) [Sleep 2, Post url pl t])\<rparr>)"
proof (induction "nat (n - k)" arbitrary: k w)
  case 0
  then have kn: "k = n" by simp
  have l: "[n..n] = [n]" by (simp add: upto_rec1)
  have tr: "transient (post n)" using 0 kn by simp
  show ?case unfolding kn l
    using tr by (auto simp: transient_def backoff_def elapse_def emit_def Let_def)
next
  case (Suc m)
  then have lt: "k < n" and m: "m = nat (n - (k + 1))" and le: "k + 1 \<le> n" by linarith+
  have l: "[k..n] = k # [k + 1..n]" using lt by (simp add: upto_rec1)
  have tr: "transient (post k)" using Suc.prems lt by simp
  have rest: "\<And>a. k + 1 \<le> a \<Longrightarrow> a \<le> n \<Longrightarrow> transient (post a)"
    using Suc.prems by simp
  have nk: "nat (n - k) = Suc (nat (n - (k + 1)))" using lt by linarith
  show ?case
    unfolding l nk
    using lt
    using tr by (auto simp: transient_def Suc.hyps(1) [OF m le rest]
          backoff_def elapse_def emit_def Let_def)
qed

lemma attempts_terminal:
  "j \<le> k \<Longrightarrow> k \<le> n \<Longrightarrow> (\<And>a. j \<le> a \<Longrightarrow> a < k \<Longrightarrow> transient (post a)) \<Longrightarrow> terminal (post k) \<Longrightarrow>
   attempts post secs url pl n t [j..n] w =
     (Inr True,
      w\<lparr>clock := clock w + sum_list (map secs [j..k]) + 2 * real_of_int (k - j),
        trace := trace w @ concat (replicate (nat (k - j)) [Post url pl t, Sleep 2]) @ [Post url pl t]\<rparr>)"
proof (induction "nat (k - j)" arbitrary: j w)
  case 0
  then have jk: "j = k" by simp
  have l: "[k..n] = k # [k + 1..n]" using 0 by (simp add: upto_rec1)
  have l': "[k..k] = [k]" by (simp add: upto_rec1)
  show ?case unfolding jk l l'
    using \<open>terminal (post k)\<close> by (auto simp: terminal_def elapse_def emit_def Let_def)
next
  case (Suc m)
  then have lt: "j < k" and m: "m = nat (k - (j + 1))" and le: "j + 1 \<le> k" by linarith+
  have l: "[j..n] = j # [j + 1..n]" using lt Suc.prems by (simp add: upto_rec1)
  have l': "[j..k] = j # [j + 1..k]" using lt by (simp add: upto_rec1)
  have tr: "transient (post j)" using Suc.prems lt by simp
  have rest: "\<And>a. j + 1 \<le> a \<Longrightarrow> a < k \<Longrightarrow> transient (post a)"
    using Suc.prems by simp
  have kj: "nat (k - j) = Suc (nat (k - (j + 1)))" using lt by linarith
  have jn: "j < n" using lt Suc.prems by simp
  show ?case
    unfolding l l' kj
    using tr jn by (auto simp: transient_def Suc.hyps(1) [OF m le \<open>k \<le> n\<close> rest \<open>terminal (post k)\<close>]
          backoff_def elapse_def emit_def Let_def)
qed

lemma posts_append: "posts (xs @ ys) = posts xs @ posts ys"
  by (simp add: posts_def)

lemma sleeps_append: "sleeps (xs @ ys) = sleeps xs @ sleeps ys"
  by (simp add: sleeps_def)

lemma posts_rounds: "length (posts (concat (replicate m [Sleep d, Post u p t]))) = m"
  by (induction m) (simp_all add: posts_def)

lemma sleeps_rounds: "length (sleeps (concat (replicate m [Sleep d, Post u p t]))) = m"
  by (induction m) (simp_all add: sleeps_def)

lemma posts_rounds': "length (posts (concat (replicate m [Post u p t, Sleep d]))) = m"
  by (induction m) (simp_all add: posts_def)

text \<open>
  C3. For \<open>max_retries = n \<ge> 1\<close>, if each of the attempts 1 to \<open>n\<close> ends in a
  \<open>ConnectionError\<close> or a \<open>Timeout\<close>, \<open>make_api_request_with_retry\<close> returns \<open>False\<close>; it
  has made exactly \<open>n\<close> POSTs and \<open>n - 1\<close> sleeps of 2 seconds, one sleep between two
  consecutive POSTs and none after the last.
\<close>

theorem retry_exhausted_returns_failed:
  assumes "1 \<le> n"
    and "\<forall>a\<in>{1..n}. post a = Raise_ConnectionError \<or> post a = Raise_Timeout"
  shows "\<exists>w'. make_api_request_with_retry post secs url pl n t w = (Inr False, w')
     \<and> trace w' = trace w @ Post url pl t # concat (replicate (nat (n - 1)) [Sleep 2, Post url pl t])
     \<and> length (posts (trace w')) = length (posts (trace w)) + nat n
     \<and> length (sleeps (trace w')) = length (sleeps (trace w)) + nat (n - 1)
     \<and> clock w' = clock w + sum_list (map secs [1..n]) + 2 * real_of_int (n - 1)"
proof -
  have tr: "\<And>a. 1 \<le> a \<Longrightarrow> a \<le> n \<Longrightarrow> transient (post a)"
    using assms(2) by (simp add: transient_def)
  have p1: "posts [Post url pl t] = [Post url pl t]" by (simp add: posts_def)
  have s1: "sleeps [Post url pl t] = []" by (simp add: sleeps_def)
  have eq: "make_api_request_with_retry post secs url pl n t w =
     (Inr False,
      w\<lparr>clock := clock w + sum_list (map secs [1..n]) + 2 * real_of_int (n - 1),
        trace := trace w @ Post url pl t # concat (replicate (nat (n - 1)) [Sleep 2, Post url pl t])\<rparr>)"
    unfolding make_api_request_with_retry_def
    using assms(1) tr by (rule attempts_all_transient)
  have len: "Suc (nat (n - 1)) = nat n" using assms(1) by linarith
  have ps: "posts (Post url pl t # evs) = Post url pl t # posts evs" for evs
    by (simp add: posts_def)
  have ss: "sleeps (Post url pl t # evs) = sleeps evs" for evs
    by (simp add: sleeps_def)
  have np: "length (posts (trace w @ Post url pl t # concat (replicate (nat (n - 1)) [Sleep 2, Post url pl t])))
      = length (posts (trace w)) + Suc (nat (n - 1))"
    by (simp only: posts_append ps length_append list.size posts_rounds)
  have ns: "length (sleeps (trace w @ Post url pl t # concat (replicate (nat (n - 1)) [Sleep 2, Post url pl t])))
      = length (sleeps (trace w)) + nat (n - 1)"
    by (simp only: sleeps_append ss length_append sleeps_rounds)
  show ?thesis
    unfolding eq using np ns unfolding len by simp
qed

theorem retry_exhausted_witness:
  "make_api_request_with_retry (\<lambda>a. Raise_Timeout) (\<lambda>a. 10) ''http://h/api'' example_payload 3 10
       \<lparr>clock = 0, trace = []\<rparr>
     = (Inr False,
        \<lparr>clock = 34,
         trace = [Post ''http://h/api'' example_payload 10, Sleep 2,
                  Post ''http://h/api'' example_payload 10, Sleep 2,
                  Post ''http://h/api'' example_payload 10]\<rparr>)"
proof -
  have n: "(1::int) \<le> 3" by simp
  have f: "\<forall>a\<in>{1..3::int}. (\<lambda>a. Raise_Timeout) a = Raise_ConnectionError \<or> (\<lambda>a. Raise_Timeout) a = Raise_Timeout"
    by simp
  have r: "replicate (nat (3 - 1)) [Sleep 2, Post ''http://h/api'' example_payload 10]
       = [[Sleep 2, Post ''http://h/api'' example_payload 10], [Sleep 2, Post ''http://h/api'' example_payload 10]]"
    by (simp add: eval_nat_numeral)
  from retry_exhausted_returns_failed [OF n f, of "\<lambda>a. 10" "''http://h/api''" example_payload 10 "\<lparr>clock = 0, trace = []\<rparr>"]
  obtain w' where res: "make_api_request_with_retry (\<lambda>a. Raise_Timeout) (\<lambda>a. 10) ''http://h/api'' example_payload 3 10
       \<lparr>clock = 0, trace = []\<rparr> = (Inr False, w')"
    and tr: "trace w' = [Post ''http://h/api'' example_payload 10, Sleep 2,
                  Post ''http://h/api'' example_payload 10, Sleep 2,
                  Post ''http://h/api'' example_payload 10]"
    and cl: "clock w' = 34"
    unfolding r by (auto simp: sum_list_triv)
  have "w' = \<lparr>clock = 34, trace = [Post ''http://h/api'' example_payload 10, Sleep 2,
                  Post ''http://h/api'' example_payload 10, Sleep 2,
                  Post ''http://h/api'' example_payload 10]\<rparr>"
    using tr cl by simp
  with res show ?thesis by simp
qed

text \<open>
  C4. If attempt \<open>k\<close> is reached (the attempts before it were transient failures) and
  ends in an \<open>HTTPError\<close> or in a \<open>RequestException\<close> that is neither a
  \<open>ConnectionError\<close> nor a \<open>Timeout\<close>, the function returns \<open>True\<close> on that attempt: the
  trace ends with the POST of attempt \<open>k\<close>, whatever \<open>max_retries\<close> allows beyond it.
\<close>

theorem terminal_error_returns_sent:
  assumes "1 \<le> k" and "k \<le> n"
    and "\<forall>a\<in>{1..<k}. post a = Raise_ConnectionError \<or> post a = Raise_Timeout"
    and "post k = Raise_HTTPError \<or> post k = Raise_RequestException"
  shows "\<exists>w'. make_api_request_with_retry post secs url pl n t w = (Inr True, w')
     \<and> trace w' = trace w @ concat (replicate (nat (k - 1)) [Post url pl t, Sleep 2]) @ [Post url pl t]
     \<and> length (posts (trace w')) = length (posts (trace w)) + nat k
     \<and> clock w' = clock w + sum_list (map secs [1..k]) + 2 * real_of_int (k - 1)"
proof -
  have tr: "\<And>a. 1 \<le> a \<Longrightarrow> a < k \<Longrightarrow> transient (post a)"
    using assms(3) by (simp add: transient_def)
  have te: "terminal (post k)" using assms(4) by (simp add: terminal_def)
  have p1: "posts [Post url pl t] = [Post url pl t]" by (simp add: posts_def)
  have eq: "make_api_request_with_retry post secs url pl n t w =
     (Inr True,
      w\<lparr>clock := clock w + sum_list (map secs [1..k]) + 2 * real_of_int (k - 1),
        trace := trace w @ concat (replicate (nat (k - 1)) [Post url pl t, Sleep 2]) @ [Post url pl t]\<rparr>)"
    unfolding make_api_request_with_retry_def
    using assms(1,2) tr te by (rule attempts_terminal)
  have len: "Suc (nat (k - 1)) = nat k" using assms(1) by linarith
  have np: "length (posts (trace w @ concat (replicate (nat (k - 1)) [Post url pl t, Sleep 2]) @ [Post url pl t]))
      = length (posts (trace w)) + Suc (nat (k - 1))"
    by (simp only: posts_append p1 length_append list.size posts_rounds')
  show ?thesis
    unfolding eq using np unfolding len by simp
qed

theorem terminal_error_witness:
  "make_api_request_with_retry (\<lambda>a. if a = 1 then Raise_Timeout else Raise_HTTPError) (\<lambda>a. 10)
       ''http://h/api'' example_payload 5 10 \<lparr>clock = 0, trace = []\<rparr>
     = (Inr True,
        \<lparr>clock = 22,
         trace = [Post ''http://h/api'' example_payload 10, Sleep 2,
                  Post ''http://h/api'' example_payload 10]\<rparr>)"
proof -
  let ?post = "\<lambda>a::int. if a = 1 then Raise_Timeout else Raise_HTTPError"
  have k: "(1::int) \<le> 2" "(2::int) \<le> 5" by simp_all
  have f: "\<forall>a\<in>{1..<2::int}. ?post a = Raise_ConnectionError \<or> ?post a = Raise_Timeout"
    by simp
  have t: "?post 2 = Raise_HTTPError \<or> ?post 2 = Raise_RequestException" by simp
  have r: "replicate (nat (2 - 1)) [Post ''http://h/api'' example_payload 10, Sleep 2]
       = [[Post ''http://h/api'' example_payload 10, Sleep 2]]"
    by simp
  have u: "[1..2] = [1, 2::int]" by (simp add: upto_rec1)
  from terminal_error_returns_sent [OF k f t, of "\<lambda>a. 10" "''http://h/api''" example_payload 10 "\<lparr>clock = 0, trace = []\<rparr>"]
  obtain w' where res: "make_api_request_with_retry ?post (\<lambda>a. 10) ''http://h/api'' example_payload 5 10
       \<lparr>clock = 0, trace = []\<rparr> = (Inr True, w')"
    and tr: "trace w' = [Post ''http://h/api'' example_payload 10, Sleep 2,
                  Post ''http://h/api'' example_payload 10]"
    and cl: "clock w' = 22"
    unfolding r u by auto
  have "w' = \<lparr>clock = 22, trace = [Post ''http://h/api'' example_payload 10, Sleep 2,
                  Post ''http://h/api'' example_payload 10]\<rparr>"
    using tr cl by simp
  with res show ?thesis by simp
qed

subsection \<open>One cycle of the loop\<close>

lemma make_api_request_once:
  "make_api_request_with_retry post secs url pl 1 t w =
     (case post 1 of
        Response_ok \<Rightarrow> Inr True
      | Raise_HTTPError \<Rightarrow> Inr True
      | Raise_ConnectionError \<Rightarrow> Inr False
      | Raise_Timeout \<Rightarrow> Inr False
      | Raise_RequestException \<Rightarrow> Inr True
      | Raise_other \<Rightarrow> Inl Uncaught,
      elapse (secs 1) (emit (Post url pl t) w))"
proof -
  have l: "[1..1] = [1::int]" by (simp add: upto_rec1)
  show ?thesis
    unfolding make_api_request_with_retry_def l
    by (simp add: backoff_def Let_def split: post_result.split)
qed

lemma dispatch_cases:
  "dispatch cfg inp st stat e n lat lon ct w =
     (let pl = report_payload cfg e n;
          w2 = elapse (post_seconds inp 1) (emit (Post (api_url cfg) pl 10) (emit (Info_request stat pl) w))
      in case post_result_of inp 1 of
           Raise_other \<Rightarrow> (Raised Uncaught, w2)
         | Raise_ConnectionError \<Rightarrow> (Continue st (Dispatched False), w2)
         | Raise_Timeout \<Rightarrow> (Continue st (Dispatched False), w2)
         | _ \<Rightarrow> (Continue (st\<lparr>last_request_time := ct, previous_position := (lat, lon)\<rparr>)
                  (Dispatched True), w2))"
  by (simp add: dispatch_def make_api_request_once report_payload_def Let_def split: post_result.split)

lemma main_iteration_accepted:
  assumes "datagram inp \<noteq> []"
    and "parse_nmea_sentence flt (filter_nmea_sentence (datagram inp)) = Inr (lat, lon, acc)"
    and "acc \<le> 100"
    and "transform inp lon lat = Some (Finite e, Finite n)"
    and "haversine_distance err (previous_position st) (lat, lon) = Some d"
  shows "main_iteration flt err cfg inp st w =
     (let moved = d > real_of_int (distance_limit cfg);
          elapsed = clock w - last_request_time st;
          w2 = emit (Info_has_moved moved) (emit (Info_time_since \<lfloor>elapsed\<rfloor>) (emit (Transform lon lat) w))
      in if (moved \<and> elapsed \<ge> real_of_int (moving_time_limit cfg))
            \<or> (\<not> moved \<and> elapsed \<ge> real_of_int (stationary_time_limit cfg))
         then dispatch cfg inp st (\<not> moved) \<lfloor>e\<rfloor> \<lfloor>n\<rfloor> lat lon (clock w) w2
         else (Continue st Skipped, w2))"
  using assms
  by (simp add: main_iteration_def convert_to_osgb36_def math_floor_def has_moved_def emit_def Let_def)

lemma main_iteration_rejected:
  assumes "(\<exists>failure. parse_nmea_sentence flt (filter_nmea_sentence (datagram inp)) = Inl failure)
         \<or> (\<exists>lat lon acc. parse_nmea_sentence flt (filter_nmea_sentence (datagram inp)) = Inr (lat, lon, acc) \<and> acc > 100)"
  shows "main_iteration flt err cfg inp st w = (if datagram inp = [] then Break else Continue st Skipped, w)"
  using assms by (auto simp: main_iteration_def)

lemma main_iteration_projection_failure:
  assumes "datagram inp \<noteq> []"
    and "parse_nmea_sentence flt (filter_nmea_sentence (datagram inp)) = Inr (lat, lon, acc)"
    and "acc \<le> 100"
    and "transform inp lon lat = None"
  shows "main_iteration flt err cfg inp st w = (Raised TypeError, emit (Transform lon lat) w)"
  using assms by (simp add: main_iteration_def convert_to_osgb36_def Let_def)

lemma main_iteration_distance_failure:
  assumes "datagram inp \<noteq> []"
    and "parse_nmea_sentence flt (filter_nmea_sentence (datagram inp)) = Inr (lat, lon, acc)"
    and "acc \<le> 100"
    and "haversine_distance err (previous_position st) (lat, lon) = None"
  shows "\<exists>exn. main_iteration flt err cfg inp st w = (Raised exn, emit (Transform lon lat) w)"
  using assms
  by (auto simp: main_iteration_def convert_to_osgb36_def has_moved_def Let_def
        split: option.splits sum.splits)

lemma main_iteration_cases:
  assumes "main_iteration flt err cfg inp st w = (Continue st' act, w')"
  shows "(st' = st \<and> act = Skipped \<and> w' = w)
       \<or> (\<exists>lat lon acc e n d.
             parse_nmea_sentence flt (filter_nmea_sentence (datagram inp)) = Inr (lat, lon, acc)
           \<and> datagram inp \<noteq> [] \<and> acc \<le> 100
           \<and> transform inp lon lat = Some (Finite e, Finite n)
           \<and> haversine_distance err (previous_position st) (lat, lon) = Some d)"
  using assms
  by (auto simp: main_iteration_def convert_to_osgb36_def math_floor_def has_moved_def Let_def
        split: if_splits option.splits sum.splits pyfloat.splits)

lemma posts_emit_info [simp]:
  "posts (trace (emit (Transform a b) w)) = posts (trace w)"
  "posts (trace (emit (Info_time_since i) w)) = posts (trace w)"
  "posts (trace (emit (Info_has_moved m) w)) = posts (trace w)"
  "posts (trace (emit (Info_request s pl) w)) = posts (trace w)"
  "posts (trace (emit (Post u pl t) w)) = posts (trace w) @ [Post u pl t]"
  "posts (trace (elapse d w)) = posts (trace w)"
  by (simp_all add: emit_def elapse_def posts_def)

lemma clock_emit_elapse [simp]:
  "clock (emit e w) = clock w"
  "clock (elapse d w) = clock w + d"
  by (simp_all add: emit_def elapse_def)

lemma example_parse:
  "parse_nmea_sentence decimal_float (filter_nmea_sentence (datagram example_input))
     = Inr (481173 / 10000, 691 / 60, 9 / 10)"
  by code_simp

lemma example_iteration:
  "main_iteration decimal_float exact example_config example_input parked_state example_world =
     (Continue \<lparr>previous_position = (481173 / 10000, 691 / 60), last_request_time = 400\<rparr>
        (Dispatched True),
      \<lparr>clock = 403,
       trace = [Transform (691 / 60) (481173 / 10000), Info_time_since 300, Info_has_moved False,
                Info_request True (report_payload example_config 4467061 (-166567)),
                Post ''http://h/api'' (report_payload example_config 4467061 (-166567)) 10]\<rparr>)"
proof -
  have ne: "datagram example_input \<noteq> []" by (simp add: example_input_def)
  have acc: "(9 / 10 :: real) \<le> 100" by simp
  have tr: "transform example_input (691 / 60) (481173 / 10000) = Some (Finite (8934123 / 2), Finite (- (666265 / 4)))"
    by (simp add: example_input_def)
  have hd: "haversine_distance exact (previous_position parked_state) (481173 / 10000, 691 / 60) = Some 0"
    by (simp add: parked_state_def haversine_distance_refl exact_def)
  have f1: "\<lfloor>8934123 / 2 :: real\<rfloor> = 4467061" by simp
  have f2: "\<lfloor>- (666265 / 4) :: real\<rfloor> = -166567" by simp
  show ?thesis
    unfolding main_iteration_accepted [OF ne example_parse acc tr hd, where cfg = example_config and w = example_world] f1 f2
    by (simp add: dispatch_cases Let_def emit_def elapse_def example_config_def example_input_def
          parked_state_def example_world_def)
qed

text \<open>
  The decision, whenever it is reached. For a fix that is parsed, within accuracy and
  projected to finite coordinates, and for which the distance \<open>d\<close> from the previous
  reported position is computed: a dispatch is made (one POST) if and only if \<open>d\<close> is
  greater than \<open>distance_limit\<close> and the elapsed time is at least \<open>moving_time_limit\<close>,
  or \<open>d\<close> is not greater than \<open>distance_limit\<close> and the elapsed time is at least
  \<open>stationary_time_limit\<close>; otherwise the cycle is skipped, with no POST and the state
  as it was. In exact arithmetic the distance is always computed.
\<close>

lemma dispatch_decision_when_computed:
  assumes "datagram inp \<noteq> []"
    and "parse_nmea_sentence flt (filter_nmea_sentence (datagram inp)) = Inr (lat, lon, acc)"
    and "acc \<le> 100"
    and "transform inp lon lat = Some (Finite e, Finite n)"
    and "haversine_distance err (previous_position st) (lat, lon) = Some d"
  shows "let elapsed = clock w - last_request_time st;
          moved = d > real_of_int (distance_limit cfg);
          report = ((moved \<and> elapsed \<ge> real_of_int (moving_time_limit cfg))
                    \<or> (\<not> moved \<and> elapsed \<ge> real_of_int (stationary_time_limit cfg)));
          res = main_iteration flt err cfg inp st w
      in (report \<longrightarrow>
            length (posts (trace (snd res))) = length (posts (trace w)) + 1
            \<and> ((\<exists>st' result. fst res = Continue st' (Dispatched result)) \<or> fst res = Raised Uncaught))
         \<and> (\<not> report \<longrightarrow>
            posts (trace (snd res)) = posts (trace w) \<and> fst res = Continue st Skipped)"
  unfolding main_iteration_accepted [OF assms, where cfg = cfg and w = w]
  by (cases "post_result_of inp 1") (auto simp: dispatch_cases Let_def)

lemma dispatch_decision_exact:
  assumes "datagram inp \<noteq> []"
    and "parse_nmea_sentence flt (filter_nmea_sentence (datagram inp)) = Inr (lat, lon, acc)"
    and "acc \<le> 100"
    and "transform inp lon lat = Some (Finite e, Finite n)"
  shows "\<exists>d. haversine_distance exact (previous_position st) (lat, lon) = Some d \<and>
     (let elapsed = clock w - last_request_time st;
          moved = d > real_of_int (distance_limit cfg);
          report = ((moved \<and> elapsed \<ge> real_of_int (moving_time_limit cfg))
                    \<or> (\<not> moved \<and> elapsed \<ge> real_of_int (stationary_time_limit cfg)));
          res = main_iteration flt exact cfg inp st w
      in (report \<longrightarrow>
            length (posts (trace (snd res))) = length (posts (trace w)) + 1
            \<and> ((\<exists>st' result. fst res = Continue st' (Dispatched result)) \<or> fst res = Raised Uncaught))
         \<and> (\<not> report \<longrightarrow>
            posts (trace (snd res)) = posts (trace w) \<and> fst res = Continue st Skipped))"
proof -
  obtain d where d: "haversine_distance exact (previous_position st) (lat, lon) = Some d"
    using has_moved_exact by blast
  from dispatch_decision_when_computed [OF assms d, where cfg = cfg and w = w] d show ?thesis by blast
qed

lemma antipodal_parse:
  "parse_nmea_sentence decimal_float (filter_nmea_sentence (datagram antipodal_input))
     = Inr (- (357 / 50000), 180, 9 / 10)"
  by code_simp

lemma antipodal_any_projection_parse:
  "parse_nmea_sentence decimal_float
       (filter_nmea_sentence (datagram (antipodal_input\<lparr>transform := tr\<rparr>)))
     = Inr (- (357 / 50000), 180, 9 / 10)"
  using antipodal_parse by simp

text \<open>
  C2. The decision is meant to be taken for every accepted fix. The code does not take it
  when the distance is not computed: at the fix 0.00714 S, 180 E after a report at
  0.00714 N, 0 E, the doubles give the term \<open>a\<close> the value \<open>1.0000000000000002\<close>,
  \<open>sqrt(1 - a)\<close> raises, \<open>haversine_distance\<close> catches that and returns \<open>None\<close>, and
  \<open>has_moved\<close> compares \<open>None\<close> with the limit, which raises \<open>TypeError\<close> outside any
  \<open>try\<close>. The cycle neither reports nor skips: the loop ends and the next datagram is
  never read. This holds whatever the projection library does at this fix: if it raises
  or returns an infinity or a NaN, the cycle raises one statement earlier.
\<close>

theorem antipodal_fix_crashes:
  "main_loop decimal_float ulp_error example_config [antipodal_input, example_input]
       equator_state \<lparr>clock = 399, trace = []\<rparr>
     = (Crashed TypeError, \<lparr>clock = 400, trace = [Transform 180 (- (357 / 50000))]\<rparr>)
   \<and> (\<forall>tr. \<exists>exn.
         main_loop decimal_float ulp_error example_config
             [antipodal_input\<lparr>transform := tr\<rparr>, example_input]
             equator_state \<lparr>clock = 399, trace = []\<rparr>
           = (Crashed exn, \<lparr>clock = 400, trace = [Transform 180 (- (357 / 50000))]\<rparr>))"
proof -
  have acc: "(9 / 10 :: real) \<le> 100" by simp
  have hd: "haversine_distance ulp_error (previous_position equator_state) (- (357 / 50000), 180) = None"
    by (simp add: equator_state_def antipodal_distance_fails)
  have ne: "datagram (antipodal_input\<lparr>transform := tr\<rparr>) \<noteq> []" for tr
    by (simp add: antipodal_input_def)
  have wt: "waited (antipodal_input\<lparr>transform := tr\<rparr>) = 1" for tr
    by (simp add: antipodal_input_def example_input_def)
  have any: "\<exists>exn. main_loop decimal_float ulp_error example_config
             [antipodal_input\<lparr>transform := tr\<rparr>, example_input]
             equator_state \<lparr>clock = 399, trace = []\<rparr>
           = (Crashed exn, \<lparr>clock = 400, trace = [Transform 180 (- (357 / 50000))]\<rparr>)" for tr
  proof -
    from main_iteration_distance_failure [OF ne antipodal_any_projection_parse acc hd,
        where cfg = example_config and w = "\<lparr>clock = 400, trace = []\<rparr>"]
    obtain exn where "main_iteration decimal_float ulp_error example_config
        (antipodal_input\<lparr>transform := tr\<rparr>) equator_state \<lparr>clock = 400, trace = []\<rparr>
        = (Raised exn, emit (Transform 180 (- (357 / 50000))) \<lparr>clock = 400, trace = []\<rparr>)"
      by blast
    then show ?thesis by (simp add: wt emit_def elapse_def)
  qed
  have tr0: "transform antipodal_input 180 (- (357 / 50000))
      = Some (Finite (8934123 / 2), Finite (- (666265 / 4)))"
    by (simp add: antipodal_input_def example_input_def)
  have hm: "has_moved ulp_error (previous_position equator_state) (- (357 / 50000), 180)
      (distance_limit example_config) = Inl TypeError"
    using hd by (rule has_moved_not_computed)
  have one: "main_iteration decimal_float ulp_error example_config antipodal_input equator_state
        \<lparr>clock = 400, trace = []\<rparr>
      = (Raised TypeError, emit (Transform 180 (- (357 / 50000))) \<lparr>clock = 400, trace = []\<rparr>)"
    using ne [of "transform antipodal_input"] antipodal_parse
    by (simp add: main_iteration_def convert_to_osgb36_def math_floor_def tr0 hm Let_def)
  have first: "main_loop decimal_float ulp_error example_config [antipodal_input, example_input]
       equator_state \<lparr>clock = 399, trace = []\<rparr>
     = (Crashed TypeError, \<lparr>clock = 400, trace = [Transform 180 (- (357 / 50000))]\<rparr>)"
    using wt [of "transform antipodal_input"] by (simp add: one emit_def elapse_def)
  from first any show ?thesis by blast
qed



text \<open>
  C6. When parsing fails, or the parsed accuracy is greater than 100, the cycle leaves
  the world as it was (no projection call, no decision log line, no POST, no time spent)
  and the state unchanged.
\<close>

theorem rejected_datagram_no_effect:
  assumes "(\<exists>failure. parse_nmea_sentence flt (filter_nmea_sentence (datagram inp)) = Inl failure)
         \<or> (\<exists>lat lon acc. parse_nmea_sentence flt (filter_nmea_sentence (datagram inp)) = Inr (lat, lon, acc)
               \<and> acc > 100)"
  shows "main_iteration flt err cfg inp st w = (if datagram inp = [] then Break else Continue st Skipped, w)"
  using assms by (rule main_iteration_rejected)

lemma gpgll_parse:
  "parse_nmea_sentence decimal_float (filter_nmea_sentence (datagram gpgll_input)) = Inl EmptyInput"
  by code_simp

theorem rejected_datagram_witness:
  "main_iteration decimal_float exact example_config gpgll_input parked_state example_world
     = (Continue parked_state Skipped, example_world)"
proof -
  have ne: "datagram gpgll_input \<noteq> []" by (simp add: gpgll_input_def)
  have "\<exists>failure. parse_nmea_sentence decimal_float (filter_nmea_sentence (datagram gpgll_input)) = Inl failure"
    using gpgll_parse by simp
  then have "(\<exists>failure. parse_nmea_sentence decimal_float (filter_nmea_sentence (datagram gpgll_input)) = Inl failure)
         \<or> (\<exists>lat lon acc. parse_nmea_sentence decimal_float (filter_nmea_sentence (datagram gpgll_input)) = Inr (lat, lon, acc)
               \<and> acc > 100)" by simp
  from rejected_datagram_no_effect [OF this, where err = exact and cfg = example_config
      and st = parked_state and w = example_world] ne
  show ?thesis by simp
qed

text \<open>
  C10. After a dispatch that returned \<open>True\<close>, \<open>last_request_time\<close> is the time sampled
  before the dispatch, and not the time at which the dispatch ended: the time the
  dispatch took lies between the two, so it counts in the elapsed time of the next cycle.
\<close>

theorem last_request_time_is_sample:
  assumes "main_iteration flt err cfg inp st w = (Continue st' (Dispatched True), w')"
  shows "last_request_time st' = clock w
       \<and> clock w' = clock w + post_seconds inp 1
       \<and> clock w' - last_request_time st' = post_seconds inp 1"
proof -
  from main_iteration_cases [OF assms]
  show ?thesis
  proof (elim disjE exE conjE)
    assume "st' = st" "Dispatched True = Skipped" "w' = w"
    then show ?thesis by simp
  next
    fix lat lon acc e n d
    assume parse: "parse_nmea_sentence flt (filter_nmea_sentence (datagram inp)) = Inr (lat, lon, acc)"
      and ne: "datagram inp \<noteq> []" and acc: "acc \<le> 100"
      and tr: "transform inp lon lat = Some (Finite e, Finite n)"
      and d: "haversine_distance err (previous_position st) (lat, lon) = Some d"
    note it = main_iteration_accepted [OF ne parse acc tr d, where cfg = cfg and w = w]
    show ?thesis
      using assms unfolding it
      by (auto simp: dispatch_cases Let_def split: if_splits post_result.splits)
  qed
qed

theorem last_request_time_witness:
  "(case main_iteration decimal_float exact example_config example_input parked_state example_world of
      (Continue st' act, w') \<Rightarrow>
         act = Dispatched True \<and> last_request_time st' = 400 \<and> clock w' = 403
    | _ \<Rightarrow> False)"
  using last_request_time_is_sample [OF example_iteration]
  by (simp add: example_iteration)

subsection \<open>The loop\<close>

lemma failing_projection_parse:
  "parse_nmea_sentence decimal_float (filter_nmea_sentence (datagram failing_projection_input))
     = Inr (481173 / 10000, 691 / 60, 9 / 10)"
  by code_simp

text \<open>
  C1. A projection failure is meant not to stop the loop. In the code it does:
  \<open>convert_to_osgb36\<close> catches the exception and returns \<open>None\<close>, and \<open>main\<close> unpacks the
  result without a test, which raises \<open>TypeError\<close> outside any \<open>try\<close>. Here the first
  datagram after the start meets a projection library that raises; the loop ends with
  \<open>TypeError\<close> and the second datagram is never read.
\<close>

theorem projection_failure_crashes:
  "main_loop decimal_float err example_config [failing_projection_input, example_input]
       (initial_state \<lparr>clock = 399, trace = []\<rparr>) \<lparr>clock = 399, trace = []\<rparr>
     = (Crashed TypeError, \<lparr>clock = 400, trace = [Transform (691 / 60) (481173 / 10000)]\<rparr>)"
proof -
  have ne: "datagram failing_projection_input \<noteq> []"
    by (simp add: failing_projection_input_def example_input_def)
  have acc: "(9 / 10 :: real) \<le> 100" by simp
  have tr: "transform failing_projection_input (691 / 60) (481173 / 10000) = None"
    by (simp add: failing_projection_input_def)
  have w: "waited failing_projection_input = 1"
    by (simp add: failing_projection_input_def example_input_def)
  show ?thesis
    by (simp add: main_iteration_projection_failure [OF ne failing_projection_parse acc tr] w
          emit_def elapse_def)
qed

text \<open>
  The sibling path does continue: after a datagram that fails to parse, the next one is
  processed and reported.
\<close>

lemma parse_failure_loop_continues:
  "main_loop decimal_float exact example_config [gpgll_input, example_input] parked_state
       \<lparr>clock = 398, trace = []\<rparr>
     = (Listening \<lparr>previous_position = (481173 / 10000, 691 / 60), last_request_time = 400\<rparr>,
        \<lparr>clock = 403,
         trace = [Transform (691 / 60) (481173 / 10000), Info_time_since 300, Info_has_moved False,
                  Info_request True (report_payload example_config 4467061 (-166567)),
                  Post ''http://h/api'' (report_payload example_config 4467061 (-166567)) 10]\<rparr>)"
proof -
  have ne: "datagram gpgll_input \<noteq> []" by (simp add: gpgll_input_def)
  have rej: "main_iteration decimal_float exact example_config gpgll_input parked_state w
      = (Continue parked_state Skipped, w)" for w
    using main_iteration_rejected [where flt = decimal_float and inp = gpgll_input and err = exact
        and cfg = example_config and st = parked_state and w = w]
      gpgll_parse ne by simp
  have w1: "waited gpgll_input = 1" "waited example_input = 1"
    by (simp_all add: gpgll_input_def example_input_def)
  have w2: "elapse 1 (elapse 1 \<lparr>clock = 398, trace = []\<rparr>) = example_world"
    by (simp add: elapse_def example_world_def)
  show ?thesis
    by (simp add: rej w1 w2 example_iteration)
qed

end
